theory Spec2Isabelle
  imports Main "HOL-Library.Multiset"
begin

section \<open>The HAProxy configurator (start.js) as a state-passing model\<close>

text \<open>
  The script resolves DNS SRV names found in a Handlebars template, renders the template
  from the resolved data, and writes the configuration file and reloads HAProxy when the
  rendered text differs from the file.

  Modelling decisions:
  \<^item> A promise is its final outcome: fulfilled with a value, rejected with an error, or
    never settled (\<open>Pending\<close>).
  \<^item> What the script reaches outside itself (DNS answers, the \<open>ip\<close> package's format
    tests, \<open>String.prototype.localeCompare\<close>, jsdiff's \<open>diffTrimmedLines\<close>, the
    callbacks of the haproxy controller, the template file) is a field of the record
    \<open>env\<close>. DNS always calls back, with an error or with an answer. Cycles run one
    after another, each in the world of its moment.
  \<^item> The file system is a store holding the content of the configuration file
    (\<open>None\<close> when the file does not exist); \<open>writeFileSync\<close> replaces the content. A
    call of the file system or of the template engine that throws is outside the model.
  \<^item> Every outside call that a claim speaks about is appended to the \<open>trace\<close> of the
    state, in program order per promise.
  \<^item> The compiled template is a list of chunks: literal text, or a \<open>dns-srv\<close> block with
    its key and its body \<open>options.fn\<close>, a function from the bound context to text.
    Discovery keys are strings (DNS names), and the object \<open>promises\<close> of
    \<open>generateContext\<close> has them as its property names (the name \<open>__proto__\<close>, which
    an object does not keep as a property, is outside the model).
\<close>

subsection \<open>Data\<close>

datatype error = DnsError string | HAProxyError string | TypeError | ConfigurationMissing

datatype 'a promise = Fulfilled 'a | Rejected error | Pending

text \<open>The outcome object of \<open>RSVP.hashSettled\<close>: \<open>{state, value}\<close> or \<open>{state, reason}\<close>.\<close>

datatype 'a settled = SFulfilled 'a | SRejected error

text \<open>
  An SRV record \<open>{name, port, priority, weight}\<close>; \<open>resolveIP\<close> adds the property \<open>ip\<close>
  to the same object, so \<open>ip\<close> is \<open>None\<close> (undefined) until then.
\<close>

record entry =
  name :: string
  ip :: "string option"
  port :: nat
  priority :: nat
  weight :: nat

text \<open>One element of the array returned by jsdiff: the flags the script reads.\<close>

record change =
  chg_value :: string
  added :: bool
  removed :: bool

datatype chunk = Text string | DnsSrv string "entry list \<Rightarrow> string"

datatype event =
    SrvQuery string
  | AddrQuery string
  | WriteFile string
  | Reload
  | Verify
  | Start
  | Schedule
  | RefreshCompleted
  | Exit int

record env =
  isV4Format :: "string \<Rightarrow> bool"
  isV6Format :: "string \<Rightarrow> bool"
  localeCompare :: "string \<Rightarrow> string \<Rightarrow> int"
  dns_resolveSrv :: "string \<Rightarrow> error + entry list"
  dns_resolve :: "string \<Rightarrow> error + string list"
  diffTrimmedLines :: "string \<Rightarrow> string \<Rightarrow> change list"
  haproxy_verify :: "error option"
  haproxy_start :: "error option"
  haproxy_reload :: "error option"
  templateSource :: "chunk list"

text \<open>
  \<open>dnsCache.srv\<close> is a JavaScript \<open>Map\<close>: keys in insertion order, each with a value that
  may be \<open>undefined\<close> (\<open>None\<close>). A key with the value \<open>undefined\<close> is still a key.
\<close>

type_synonym cache = "(string \<times> entry list option) list"

record state =
  dnsCache_srv :: cache
  template :: "chunk list"
  haproxyRunning :: bool
  configurationFile :: "string option"
  trace :: "event list"
  exited :: "int option"

subsection \<open>JavaScript built-ins\<close>

text \<open>\<open>Map.prototype.set\<close>: replaces the value of a key in place, appends a new key.\<close>

fun map_set :: "string \<Rightarrow> 'v \<Rightarrow> (string \<times> 'v) list \<Rightarrow> (string \<times> 'v) list" where
  "map_set k v [] = [(k, v)]"
| "map_set k v ((k', v') # m) = (if k = k' then (k, v) # m else (k', v') # map_set k v m)"

text \<open>\<open>Map.prototype.get\<close>: \<open>undefined\<close> for a missing key and for a key set to \<open>undefined\<close>.\<close>

definition map_get :: "cache \<Rightarrow> string \<Rightarrow> entry list option" where
  "map_get m k = (case map_of m k of None \<Rightarrow> None | Some v \<Rightarrow> v)"

text \<open>Truthiness of a cache value: \<open>undefined\<close> is falsy, every array is truthy, the empty one too.\<close>

definition truthy :: "entry list option \<Rightarrow> bool" where
  "truthy v = (case v of None \<Rightarrow> False | Some xs \<Rightarrow> True)"

text \<open>
  \<open>Array.prototype.sort\<close> with a comparator, as a stable insertion sort: an element goes
  before the first element it does not compare greater than, so elements that compare
  equal keep the order they had.
\<close>

fun insert_by :: "('a \<Rightarrow> 'a \<Rightarrow> int) \<Rightarrow> 'a \<Rightarrow> 'a list \<Rightarrow> 'a list" where
  "insert_by cmp x [] = [x]"
| "insert_by cmp x (y # ys) = (if cmp x y \<le> 0 then x # y # ys else y # insert_by cmp x ys)"

definition js_sort :: "('a \<Rightarrow> 'a \<Rightarrow> int) \<Rightarrow> 'a list \<Rightarrow> 'a list" where
  "js_sort cmp xs = foldr (insert_by cmp) xs []"

text \<open>\<open>address[0]\<close>: \<open>undefined\<close> on an empty array.\<close>

definition first_address :: "string list \<Rightarrow> string option" where
  "first_address address = (case address of [] \<Rightarrow> None | a # _ \<Rightarrow> Some a)"

text \<open>
  \<open>Promise.all\<close>: rejected as soon as one member is rejected (the model reports the first
  rejection in list order), fulfilled with all values when all are fulfilled.
\<close>

fun promise_all :: "'a promise list \<Rightarrow> 'a list promise" where
  "promise_all [] = Fulfilled []"
| "promise_all (p # ps) =
     (case p of
        Rejected e \<Rightarrow> Rejected e
      | Pending \<Rightarrow> (case promise_all ps of Rejected e \<Rightarrow> Rejected e | _ \<Rightarrow> Pending)
      | Fulfilled v \<Rightarrow>
          (case promise_all ps of
             Fulfilled vs \<Rightarrow> Fulfilled (v # vs)
           | Rejected e \<Rightarrow> Rejected e
           | Pending \<Rightarrow> Pending))"

text \<open>
  \<open>RSVP.hashSettled\<close>: never rejected; fulfilled, once every member has settled, with
  each member's own outcome under its key.
\<close>

fun settle :: "'a promise \<Rightarrow> 'a settled option" where
  "settle (Fulfilled v) = Some (SFulfilled v)"
| "settle (Rejected e) = Some (SRejected e)"
| "settle Pending = None"

fun hashSettled :: "(string \<times> 'a promise) list \<Rightarrow> (string \<times> 'a settled) list promise" where
  "hashSettled [] = Fulfilled []"
| "hashSettled ((k, p) # ps) =
     (case settle p of
        None \<Rightarrow> Pending
      | Some r \<Rightarrow> (case hashSettled ps of Fulfilled rs \<Rightarrow> Fulfilled ((k, r) # rs) | _ \<Rightarrow> Pending))"

subsection \<open>Resolution\<close>

text \<open>\<open>resolveIP\<close>: the promise's outcome and the address lookups it sent.\<close>

definition resolveIP :: "env \<Rightarrow> entry \<Rightarrow> entry promise \<times> event list" where
  "resolveIP env e =
     (if isV4Format env (name e) \<or> isV6Format env (name e)
      then (Fulfilled (e\<lparr>ip := Some (name e)\<rparr>), [])
      else (case dns_resolve env (name e) of
              Inl err \<Rightarrow> (Rejected err, [AddrQuery (name e)])
            | Inr address \<Rightarrow> (Fulfilled (e\<lparr>ip := first_address address\<rparr>), [AddrQuery (name e)])))"

text \<open>\<open>resolveSRV\<close>: the promise's outcome and the lookups it sent.\<close>

definition resolveSRV :: "env \<Rightarrow> string \<Rightarrow> entry list promise \<times> event list" where
  "resolveSRV env dnsName =
     (case dns_resolveSrv env dnsName of
        Inl err \<Rightarrow> (Rejected err, [SrvQuery dnsName])
      | Inr result \<Rightarrow>
          if length result > 0
          then (let sorted = js_sort (\<lambda>a b. localeCompare env (name a) (name b)) result;
                    resolved = map (resolveIP env) sorted
                in (promise_all (map fst resolved), SrvQuery dnsName # concat (map snd resolved)))
          else (Fulfilled [], [SrvQuery dnsName]))"

text \<open>The value \<open>generateContext\<close> stores for a settled outcome.\<close>

fun stored :: "entry list settled \<Rightarrow> entry list option" where
  "stored (SFulfilled v) = Some v"
| "stored (SRejected e) = None"

text \<open>
  \<open>generateContext\<close>: one \<open>resolveSRV\<close> per key of the cache, joined by \<open>hashSettled\<close>;
  then every key of the result is set in the cache. The context it returns is the empty
  object, here \<open>()\<close>.
\<close>

definition generateContext :: "env \<Rightarrow> state \<Rightarrow> unit promise \<times> state" where
  "generateContext env s =
     (let services = dnsCache_srv s;
          promises = map (\<lambda>(dnsName, v). (dnsName, resolveSRV env dnsName)) services;
          s1 = s\<lparr>trace := trace s @ concat (map (\<lambda>(dnsName, p). snd p) promises)\<rparr>
      in case hashSettled (map (\<lambda>(dnsName, p). (dnsName, fst p)) promises) of
           Fulfilled result \<Rightarrow>
             (Fulfilled (),
              s1\<lparr>dnsCache_srv :=
                   fold (\<lambda>(key, promiseResult) m. map_set key (stored promiseResult) m)
                     result services\<rparr>)
         | Rejected err \<Rightarrow> (Rejected err, s1)
         | Pending \<Rightarrow> (Pending, s1))"

subsection \<open>Template\<close>

text \<open>
  Rendering calls the registered \<open>dns-srv\<close> helper at every block; a helper that returns
  \<open>undefined\<close> contributes nothing to the output.
\<close>

definition render_chunk :: "(string \<Rightarrow> (entry list \<Rightarrow> string) \<Rightarrow> string option) \<Rightarrow> chunk \<Rightarrow> string" where
  "render_chunk helper c =
     (case c of
        Text t \<Rightarrow> t
      | DnsSrv dnsName fn \<Rightarrow> (case helper dnsName fn of None \<Rightarrow> [] | Some out \<Rightarrow> out))"

definition render :: "(string \<Rightarrow> (entry list \<Rightarrow> string) \<Rightarrow> string option) \<Rightarrow> chunk list \<Rightarrow> string" where
  "render helper tpl = concat (map (render_chunk helper) tpl)"

text \<open>The dry-run helper: records the key with the value \<open>undefined\<close>, returns \<open>undefined\<close>.\<close>

fun dryRun :: "chunk list \<Rightarrow> cache \<Rightarrow> cache" where
  "dryRun [] m = m"
| "dryRun (Text t # tpl) m = dryRun tpl m"
| "dryRun (DnsSrv dnsName fn # tpl) m = dryRun tpl (map_set dnsName None m)"

text \<open>The productive helper.\<close>

definition gatherDataHelper :: "cache \<Rightarrow> string \<Rightarrow> (entry list \<Rightarrow> string) \<Rightarrow> string option" where
  "gatherDataHelper m dnsName fn =
     (if \<not> truthy (map_get m dnsName) then None
      else (case map_get m dnsName of None \<Rightarrow> None | Some v \<Rightarrow> Some (fn v)))"

definition checkTemplate :: "env \<Rightarrow> state \<Rightarrow> unit promise \<times> state" where
  "checkTemplate env s =
     (Fulfilled (),
      s\<lparr>template := templateSource env,
        dnsCache_srv := dryRun (templateSource env) (dnsCache_srv s)\<rparr>)"

subsection \<open>One cycle\<close>

definition originalConfig :: "state \<Rightarrow> string" where
  "originalConfig s = (case configurationFile s of Some c \<Rightarrow> c | None \<Rightarrow> [])"

definition newConfig :: "state \<Rightarrow> string" where
  "newConfig s = render (gatherDataHelper (dnsCache_srv s)) (template s)"

text \<open>
  The test \<open>diff.length > 1 || (diff[0].added || diff[0].removed)\<close>; reading a property of
  \<open>diff[0]\<close> on an empty array throws.
\<close>

definition hasChanged :: "change list \<Rightarrow> error + bool" where
  "hasChanged diff =
     (if length diff > 1 then Inr True
      else (case diff of [] \<Rightarrow> Inl TypeError | c # _ \<Rightarrow> Inr (added c \<or> removed c)))"

definition regenerateConfiguration :: "env \<Rightarrow> state \<Rightarrow> unit promise \<times> state" where
  "regenerateConfiguration env s =
     (case generateContext env s of
        (Rejected err, s1) \<Rightarrow> (Rejected err, s1)
      | (Pending, s1) \<Rightarrow> (Pending, s1)
      | (Fulfilled context, s1) \<Rightarrow>
          (case hasChanged (diffTrimmedLines env (originalConfig s1) (newConfig s1)) of
             Inl err \<Rightarrow> (Rejected err, s1)
           | Inr True \<Rightarrow>
               (let s2 = s1\<lparr>configurationFile := Some (newConfig s1),
                            trace := trace s1 @ [WriteFile (newConfig s1)]\<rparr>
                in if haproxyRunning s2
                   then (case haproxy_reload env of
                           Some err \<Rightarrow> (Rejected err, s2\<lparr>trace := trace s2 @ [Reload]\<rparr>)
                         | None \<Rightarrow> (Fulfilled (), s2\<lparr>trace := trace s2 @ [Reload]\<rparr>))
                   else (Fulfilled (), s2))
           | Inr False \<Rightarrow> (Pending, s1)))"

text \<open>What the change test of a cycle started in \<open>s\<close> says, after the cycle's resolution.\<close>

definition materialChange :: "env \<Rightarrow> state \<Rightarrow> error + bool" where
  "materialChange env s =
     (let s1 = snd (generateContext env s)
      in hasChanged (diffTrimmedLines env (originalConfig s1) (newConfig s1)))"

subsection \<open>Startup and schedule\<close>

definition onFailure :: "error \<Rightarrow> state \<Rightarrow> state" where
  "onFailure err s = s\<lparr>trace := trace s @ [Exit (- 1)], exited := Some (- 1)\<rparr>"

definition verifyConfiguration :: "env \<Rightarrow> state \<Rightarrow> unit promise \<times> state" where
  "verifyConfiguration env s =
     (if configurationFile s = None then (Rejected ConfigurationMissing, s)
      else (case haproxy_verify env of
              Some err \<Rightarrow> (Rejected err, s\<lparr>trace := trace s @ [Verify]\<rparr>)
            | None \<Rightarrow> (Fulfilled (), s\<lparr>trace := trace s @ [Verify]\<rparr>)))"

definition startHAProxy :: "env \<Rightarrow> state \<Rightarrow> unit promise \<times> state" where
  "startHAProxy env s =
     (case haproxy_start env of
        Some err \<Rightarrow> (Rejected err, s\<lparr>trace := trace s @ [Start]\<rparr>)
      | None \<Rightarrow> (Fulfilled (), s\<lparr>trace := trace s @ [Start], haproxyRunning := True\<rparr>))"

definition scheduleRefresh :: "state \<Rightarrow> unit promise \<times> state" where
  "scheduleRefresh s = (Fulfilled (), s\<lparr>trace := trace s @ [Schedule]\<rparr>)"

text \<open>\<open>p.then(f)\<close>: \<open>f\<close> runs only when \<open>p\<close> is fulfilled.\<close>

definition then_p :: "'a promise \<times> state \<Rightarrow> ('a \<Rightarrow> state \<Rightarrow> 'b promise \<times> state) \<Rightarrow> 'b promise \<times> state" where
  "then_p ps f =
     (case ps of
        (Fulfilled v, s) \<Rightarrow> f v s
      | (Rejected err, s) \<Rightarrow> (Rejected err, s)
      | (Pending, s) \<Rightarrow> (Pending, s))"

definition initial_state :: "string option \<Rightarrow> state" where
  "initial_state file =
     \<lparr>dnsCache_srv = [], template = [], haproxyRunning = False,
      configurationFile = file, trace = [], exited = None\<rparr>"

text \<open>
  The main sequence, up to \<open>scheduleRefresh\<close> (\<open>reportSuccess\<close> and \<open>logStats\<close> only log),
  with its final \<open>catch(onFailure)\<close>.
\<close>

definition main :: "env \<Rightarrow> string option \<Rightarrow> unit promise \<times> state" where
  "main env file =
     (case then_p (then_p (then_p (then_p (checkTemplate env (initial_state file))
                 (\<lambda>_. regenerateConfiguration env))
                 (\<lambda>_. verifyConfiguration env))
                 (\<lambda>_. startHAProxy env))
                 (\<lambda>_. scheduleRefresh) of
        (Rejected err, s) \<Rightarrow> (Rejected err, onFailure err s)
      | (Fulfilled v, s) \<Rightarrow> (Fulfilled v, s)
      | (Pending, s) \<Rightarrow> (Pending, s))"

text \<open>One firing of the interval timer.\<close>

definition tick :: "env \<Rightarrow> state \<Rightarrow> state" where
  "tick env s =
     (case regenerateConfiguration env s of
        (Fulfilled v, s') \<Rightarrow> s'\<lparr>trace := trace s' @ [RefreshCompleted]\<rparr>
      | (Rejected err, s') \<Rightarrow> onFailure err s'
      | (Pending, s') \<Rightarrow> s')"

text \<open>Successive firings, each with the outside world of its moment; none after the exit.\<close>

fun run :: "env list \<Rightarrow> state \<Rightarrow> state" where
  "run [] s = s"
| "run (env # envs) s = (if exited s = None then run envs (tick env s) else s)"

text \<open>The process: the main sequence, then the firings if the timer was set.\<close>

definition process :: "env \<Rightarrow> env list \<Rightarrow> string option \<Rightarrow> state" where
  "process env envs file =
     (let s = snd (main env file)
      in if Schedule \<in> set (trace s) then run envs s else s)"

text \<open>Projections of a trace.\<close>

fun writes :: "event list \<Rightarrow> string list" where
  "writes [] = []"
| "writes (WriteFile c # t) = c # writes t"
| "writes (e # t) = writes t"

fun reloads :: "event list \<Rightarrow> nat" where
  "reloads [] = 0"
| "reloads (Reload # t) = Suc (reloads t)"
| "reloads (e # t) = reloads t"

text \<open>The events a resolution sends: DNS lookups.\<close>

fun is_query :: "event \<Rightarrow> bool" where
  "is_query (SrvQuery k) = True"
| "is_query (AddrQuery n) = True"
| "is_query e = False"

subsection \<open>Values for the examples\<close>

text \<open>
  The outside world of the examples. The format tests and the comparator stand for the
  \<open>ip\<close> package and \<open>localeCompare\<close> on the names the examples use: one IPv4 literal, one
  IPv6 literal, and host names of lower-case letters, digits and dots, which
  \<open>localeCompare\<close> orders as their character codes do.
\<close>

definition example_isV4Format :: "string \<Rightarrow> bool" where
  "example_isV4Format n = (n = ''10.0.0.9'')"

definition example_isV6Format :: "string \<Rightarrow> bool" where
  "example_isV6Format n = (n = ''::1'')"

fun example_localeCompare :: "string \<Rightarrow> string \<Rightarrow> int" where
  "example_localeCompare [] [] = 0"
| "example_localeCompare [] (y # ys) = - 1"
| "example_localeCompare (x # xs) [] = 1"
| "example_localeCompare (x # xs) (y # ys) =
     (if (of_char x :: nat) < of_char y then - 1
      else if (of_char y :: nat) < of_char x then 1
      else example_localeCompare xs ys)"

definition srv :: "string \<Rightarrow> nat \<Rightarrow> entry" where
  "srv n p = \<lparr>name = n, ip = None, port = p, priority = 0, weight = 0\<rparr>"

text \<open>
  The SRV answers: \<open>web\<close> has two targets, \<open>db\<close> does not resolve, \<open>mixed\<close> has a target
  without an address, \<open>literal\<close> names two addresses, \<open>twoports\<close> has one host with two
  ports, every other name has no target.
\<close>

definition example_resolveSrv :: "string \<Rightarrow> error + entry list" where
  "example_resolveSrv k =
     (if k = ''web'' then Inr [srv ''s2.mesos'' 8080, srv ''s1.mesos'' 8080]
      else if k = ''db'' then Inl (DnsError ''ENOTFOUND'')
      else if k = ''mixed'' then Inr [srv ''s1.mesos'' 9000, srv ''gone.mesos'' 9000]
      else if k = ''literal'' then Inr [srv ''10.0.0.9'' 53, srv ''::1'' 53]
      else if k = ''twoports'' then Inr [srv ''s1.mesos'' 8080, srv ''s1.mesos'' 8081]
      else Inr [])"

definition example_resolve :: "string \<Rightarrow> error + string list" where
  "example_resolve n =
     (if n = ''s1.mesos'' then Inr [''10.0.0.1'']
      else if n = ''s2.mesos'' then Inr [''10.0.0.2'']
      else Inl (DnsError ''ENOTFOUND''))"

text \<open>
  A stand-in for jsdiff on the examples: the texts are split into lines, the lines
  trimmed of spaces; one unchanged part when they agree, a removed and an added part
  otherwise.
\<close>

fun split_lines :: "string \<Rightarrow> string list" where
  "split_lines [] = [[]]"
| "split_lines (c # cs) =
     (if c = CHR 0x0A then [] # split_lines cs
      else (case split_lines cs of [] \<Rightarrow> [[c]] | l # ls \<Rightarrow> (c # l) # ls))"

definition trim :: "string \<Rightarrow> string" where
  "trim l = rev (dropWhile (\<lambda>c. c = CHR '' '') (rev (dropWhile (\<lambda>c. c = CHR '' '') l)))"

definition example_diff :: "string \<Rightarrow> string \<Rightarrow> change list" where
  "example_diff a b =
     (if map trim (split_lines a) = map trim (split_lines b)
      then [\<lparr>chg_value = b, added = False, removed = False\<rparr>]
      else [\<lparr>chg_value = a, added = False, removed = True\<rparr>,
            \<lparr>chg_value = b, added = True, removed = False\<rparr>])"

text \<open>
  Decimal digits of a port number, as the template prints it (\<open>digit_char\<close> is only
  applied to numbers below ten).
\<close>

definition digit_char :: "nat \<Rightarrow> char" where
  "digit_char d = ''0123456789'' ! d"

fun show_nat :: "nat \<Rightarrow> string" where
  "show_nat n =
     (if n < 10 then [digit_char n]
      else show_nat (n div 10) @ [digit_char (n mod 10)])"

declare show_nat.simps [simp del]

text \<open>
  The body of a block: a \<open>backend\<close> line, then a \<open>server\<close> line for every entry of the
  bound list (an undefined \<open>ip\<close> prints as nothing).
\<close>

definition server_line :: "entry \<Rightarrow> string" where
  "server_line e =
     ''server '' @ name e @ '' '' @ (case ip e of None \<Rightarrow> [] | Some a \<Rightarrow> a) @ '':'' @
     show_nat (port e) @ [CHR 0x0A]"

definition example_block :: "entry list \<Rightarrow> string" where
  "example_block es = ''backend b'' @ [CHR 0x0A] @ concat (map server_line es)"

definition example_template :: "string \<Rightarrow> chunk list" where
  "example_template k = [Text (''global'' @ [CHR 0x0A]), DnsSrv k example_block]"

text \<open>The example world, for a template with one block on the key \<open>k\<close>.\<close>

definition example_env :: "string \<Rightarrow> error option \<Rightarrow> env" where
  "example_env k reload =
     \<lparr>isV4Format = example_isV4Format, isV6Format = example_isV6Format,
      localeCompare = example_localeCompare,
      dns_resolveSrv = example_resolveSrv, dns_resolve = example_resolve,
      diffTrimmedLines = example_diff,
      haproxy_verify = None, haproxy_start = None, haproxy_reload = reload,
      templateSource = example_template k\<rparr>"

text \<open>
  The state the main sequence reaches after \<open>checkTemplate\<close>, with a given content of
  the configuration file and a given managed-service state.
\<close>

definition example_state :: "string \<Rightarrow> string option \<Rightarrow> bool \<Rightarrow> state" where
  "example_state k file running =
     (snd (checkTemplate (example_env k None) (initial_state file)))\<lparr>haproxyRunning := running\<rparr>"

text \<open>What the template on \<open>web\<close> renders to, and a file that differs from it in spaces only.\<close>

definition example_web_config :: string where
  "example_web_config =
     ''global'' @ [CHR 0x0A] @ ''backend b'' @ [CHR 0x0A] @
     ''server s1.mesos 10.0.0.1:8080'' @ [CHR 0x0A] @
     ''server s2.mesos 10.0.0.2:8080'' @ [CHR 0x0A]"

definition example_web_file :: string where
  "example_web_file =
     ''global'' @ [CHR 0x0A] @ ''backend b  '' @ [CHR 0x0A] @
     ''  server s1.mesos 10.0.0.1:8080'' @ [CHR 0x0A] @
     ''  server s2.mesos 10.0.0.2:8080'' @ [CHR 0x0A]"

text \<open>The state after \<open>checkTemplate\<close> of a template with a block on \<open>db\<close> and one on \<open>web\<close>.\<close>

definition example_two_keys :: state where
  "example_two_keys =
     snd (checkTemplate
       ((example_env ''db'' None)\<lparr>templateSource := example_template ''db'' @ example_template ''web''\<rparr>)
       (initial_state None))"

text \<open>
  The same world with every SRV answer enumerated in the opposite order, and the two
  texts the template on \<open>twoports\<close> renders to.
\<close>

definition example_resolveSrv_reversed :: "string \<Rightarrow> error + entry list" where
  "example_resolveSrv_reversed k =
     (case example_resolveSrv k of Inl err \<Rightarrow> Inl err | Inr targets \<Rightarrow> Inr (rev targets))"

definition example_env_reversed :: "string \<Rightarrow> error option \<Rightarrow> env" where
  "example_env_reversed k reload =
     (example_env k reload)\<lparr>dns_resolveSrv := example_resolveSrv_reversed\<rparr>"

definition example_twoports_config :: string where
  "example_twoports_config =
     ''global'' @ [CHR 0x0A] @ ''backend b'' @ [CHR 0x0A] @
     ''server s1.mesos 10.0.0.1:8080'' @ [CHR 0x0A] @
     ''server s1.mesos 10.0.0.1:8081'' @ [CHR 0x0A]"

definition example_twoports_config_reversed :: string where
  "example_twoports_config_reversed =
     ''global'' @ [CHR 0x0A] @ ''backend b'' @ [CHR 0x0A] @
     ''server s1.mesos 10.0.0.1:8081'' @ [CHR 0x0A] @
     ''server s1.mesos 10.0.0.1:8080'' @ [CHR 0x0A]"

section \<open>Properties\<close>

subsection \<open>The cache and the join\<close>

lemma map_fst_map_set: "k \<in> fst ` set m \<Longrightarrow> map fst (map_set k v m) = map fst m"
  by (induction m) force+

lemma map_of_map_set: "map_of (map_set k v m) = (map_of m)(k \<mapsto> v)"
  by (induction m) (auto simp: fun_eq_iff)

lemma fst_set_map_set: "fst ` set (map_set k v m) = insert k (fst ` set m)"
proof (induction m)
  case Nil
  then show ?case by simp
next
  case (Cons a m)
  then show ?case by (cases a) (simp add: insert_commute)
qed

lemma resolveIP_settles: "fst (resolveIP env e) \<noteq> Pending"
  by (simp add: resolveIP_def split: sum.splits)

lemma promise_all_settles: "Pending \<notin> set ps \<Longrightarrow> promise_all ps \<noteq> Pending"
  by (induction ps) (auto split: promise.splits)

lemma promise_all_rejects: "Rejected e \<in> set ps \<Longrightarrow> \<exists>e'. promise_all ps = Rejected e'"
  by (induction ps) (auto split: promise.splits)

lemma resolveSRV_settles: "fst (resolveSRV env k) \<noteq> Pending"
proof (cases "dns_resolveSrv env k")
  case (Inl err)
  then show ?thesis by (simp add: resolveSRV_def)
next
  case (Inr result)
  have "Pending \<notin> set (map fst (map (resolveIP env) xs))" for xs
    using resolveIP_settles by (induction xs) (auto simp: eq_commute)
  then have "promise_all (map fst (map (resolveIP env) xs)) \<noteq> Pending" for xs
    by (rule promise_all_settles)
  then show ?thesis
    using Inr by (simp add: resolveSRV_def Let_def del: map_map)
qed

lemma hashSettled_map:
  "(\<And>k. f k \<noteq> Pending) \<Longrightarrow>
   hashSettled (map (\<lambda>k. (k, f k)) ks) = Fulfilled (map (\<lambda>k. (k, the (settle (f k)))) ks)"
proof (induction ks)
  case Nil
  then show ?case by simp
next
  case (Cons k ks)
  then have "f k \<noteq> Pending" by blast
  then obtain r where "settle (f k) = Some r" by (cases "f k") auto
  with Cons show ?case by simp
qed

lemma fold_map_set_keys:
  "set ks \<subseteq> fst ` set m \<Longrightarrow>
   map fst (fold (\<lambda>(key, r) m. map_set key (g r) m) (map (\<lambda>k. (k, h k)) ks) m) = map fst m"
proof (induction ks arbitrary: m)
  case Nil
  then show ?case by simp
next
  case (Cons k ks)
  then have k: "k \<in> fst ` set m" and ks: "set ks \<subseteq> fst ` set (map_set k (g (h k)) m)"
    by (auto simp: fst_set_map_set)
  from Cons.IH [OF ks] k show ?case by (simp add: map_fst_map_set)
qed

lemma fold_map_set_get:
  "map_of (fold (\<lambda>(key, r) m. map_set key (g r) m) (map (\<lambda>k. (k, h k)) ks) m) k =
     (if k \<in> set ks then Some (g (h k)) else map_of m k)"
  by (induction ks arbitrary: m) (auto simp: map_of_map_set)

lemma promises_keys:
  "map (\<lambda>(dnsName, p). (dnsName, fst p)) (map (\<lambda>(dnsName, v). (dnsName, resolveSRV env dnsName)) m) =
   map (\<lambda>k. (k, fst (resolveSRV env k))) (map fst m)"
  by (induction m) auto

lemma promises_events:
  "concat (map (\<lambda>(dnsName, p). snd p) (map (\<lambda>(dnsName, v). (dnsName, resolveSRV env dnsName)) m)) =
   concat (map (\<lambda>k. snd (resolveSRV env k)) (map fst m))"
  by (induction m) auto

lemma generateContext_eq:
  "generateContext env s =
     (Fulfilled (),
      s\<lparr>trace := trace s @ concat (map (\<lambda>k. snd (resolveSRV env k)) (map fst (dnsCache_srv s))),
        dnsCache_srv :=
          fold (\<lambda>(key, r) m. map_set key (stored r) m)
            (map (\<lambda>k. (k, the (settle (fst (resolveSRV env k))))) (map fst (dnsCache_srv s)))
            (dnsCache_srv s)\<rparr>)"
proof -
  have h: "hashSettled (map (\<lambda>k. (k, fst (resolveSRV env k))) (map fst (dnsCache_srv s))) =
      Fulfilled (map (\<lambda>k. (k, the (settle (fst (resolveSRV env k))))) (map fst (dnsCache_srv s)))"
    by (rule hashSettled_map) (rule resolveSRV_settles)
  show ?thesis
    unfolding generateContext_def Let_def promises_keys promises_events h by simp
qed

lemma generateContext_fst: "fst (generateContext env s) = Fulfilled ()"
  by (simp add: generateContext_eq)

lemma generateContext_keys:
  "map fst (dnsCache_srv (snd (generateContext env s))) = map fst (dnsCache_srv s)"
  by (simp add: generateContext_eq fold_map_set_keys del: map_map)

lemma stored_settle:
  "p \<noteq> Pending \<Longrightarrow>
   stored (the (settle p)) = (case p of Fulfilled v \<Rightarrow> Some v | Rejected e \<Rightarrow> None | Pending \<Rightarrow> None)"
  by (cases p) auto

lemma generateContext_get:
  "map_get (dnsCache_srv (snd (generateContext env s))) k =
     (if k \<in> fst ` set (dnsCache_srv s)
      then (case fst (resolveSRV env k) of Fulfilled v \<Rightarrow> Some v | Rejected e \<Rightarrow> None | Pending \<Rightarrow> None)
      else None)"
proof (cases "k \<in> fst ` set (dnsCache_srv s)")
  case True
  then show ?thesis
    by (simp add: generateContext_eq map_get_def fold_map_set_get stored_settle resolveSRV_settles
        del: map_map)
next
  case False
  then have "map_of (dnsCache_srv s) k = None"
    by (simp add: map_of_eq_None_iff)
  with False show ?thesis
    by (simp add: generateContext_eq map_get_def fold_map_set_get del: map_map)
qed

lemma generateContext_frame:
  "configurationFile (snd (generateContext env s)) = configurationFile s"
  "haproxyRunning (snd (generateContext env s)) = haproxyRunning s"
  "template (snd (generateContext env s)) = template s"
  "exited (snd (generateContext env s)) = exited s"
  by (simp_all add: generateContext_eq)

lemma generateContext_trace:
  "trace (snd (generateContext env s)) =
     trace s @ concat (map (\<lambda>k. snd (resolveSRV env k)) (map fst (dnsCache_srv s)))"
  by (simp add: generateContext_eq)

subsection \<open>The trace of a resolution and the two branches of a cycle\<close>

lemma writes_append: "writes (t @ u) = writes t @ writes u"
  by (induction t rule: writes.induct) auto

lemma reloads_append: "reloads (t @ u) = reloads t + reloads u"
  by (induction t rule: reloads.induct) auto

lemma queries_silent: "list_all is_query u \<Longrightarrow> writes u = [] \<and> reloads u = 0"
  by (induction u rule: writes.induct) auto

lemma resolveIP_queries: "list_all is_query (snd (resolveIP env e))"
  by (simp add: resolveIP_def split: sum.splits)

lemma resolveSRV_queries: "list_all is_query (snd (resolveSRV env k))"
proof -
  have "list_all is_query (concat (map snd (map (resolveIP env) xs)))" for xs
    by (induction xs) (simp_all add: resolveIP_queries)
  then show ?thesis
    by (simp add: resolveSRV_def Let_def del: map_map split: sum.splits)
qed

lemma generateContext_queries:
  "\<exists>u. trace (snd (generateContext env s)) = trace s @ u \<and> list_all is_query u"
proof -
  have "list_all is_query (concat (map (\<lambda>k. snd (resolveSRV env k)) ks))" for ks
    by (induction ks) (simp_all add: resolveSRV_queries)
  then show ?thesis
    by (simp add: generateContext_trace del: map_map)
qed

lemma generateContext_silent:
  "writes (trace (snd (generateContext env s))) = writes (trace s)"
  "reloads (trace (snd (generateContext env s))) = reloads (trace s)"
  using generateContext_queries [of env s] queries_silent
  by (auto simp: writes_append reloads_append)

lemma generateContext_split:
  "generateContext env s = (Fulfilled (), snd (generateContext env s))"
  using generateContext_fst [of env s] by (cases "generateContext env s") simp

lemma regenerate_unchanged:
  "materialChange env s = Inr False \<Longrightarrow>
   regenerateConfiguration env s = (Pending, snd (generateContext env s))"
  unfolding regenerateConfiguration_def materialChange_def Let_def
  by (subst generateContext_split) simp

lemma regenerate_changed:
  "materialChange env s = Inr True \<Longrightarrow>
   regenerateConfiguration env s =
     (let s1 = snd (generateContext env s);
          s2 = s1\<lparr>configurationFile := Some (newConfig s1),
                  trace := trace s1 @ [WriteFile (newConfig s1)]\<rparr>
      in if haproxyRunning s
         then (case haproxy_reload env of
                 Some err \<Rightarrow> (Rejected err, s2\<lparr>trace := trace s2 @ [Reload]\<rparr>)
               | None \<Rightarrow> (Fulfilled (), s2\<lparr>trace := trace s2 @ [Reload]\<rparr>))
         else (Fulfilled (), s2))"
  unfolding regenerateConfiguration_def materialChange_def Let_def
  by (subst generateContext_split) (simp add: generateContext_frame)

lemma regenerate_cases:
  "regenerateConfiguration env s =
     (case materialChange env s of
        Inl err \<Rightarrow> (Rejected err, snd (generateContext env s))
      | Inr False \<Rightarrow> (Pending, snd (generateContext env s))
      | Inr True \<Rightarrow>
         (let s1 = snd (generateContext env s);
              s2 = s1\<lparr>configurationFile := Some (newConfig s1),
                      trace := trace s1 @ [WriteFile (newConfig s1)]\<rparr>
          in if haproxyRunning s
             then (case haproxy_reload env of
                     Some err \<Rightarrow> (Rejected err, s2\<lparr>trace := trace s2 @ [Reload]\<rparr>)
                   | None \<Rightarrow> (Fulfilled (), s2\<lparr>trace := trace s2 @ [Reload]\<rparr>))
             else (Fulfilled (), s2)))"
proof (cases "materialChange env s")
  case (Inl err)
  then show ?thesis
    unfolding regenerateConfiguration_def materialChange_def Let_def
    by (subst generateContext_split) simp
next
  case (Inr b)
  then show ?thesis
    by (cases b) (simp_all add: regenerate_changed regenerate_unchanged)
qed

lemma regenerate_cache:
  "dnsCache_srv (snd (regenerateConfiguration env s)) = dnsCache_srv (snd (generateContext env s))"
  by (simp add: regenerate_cases Let_def split: sum.splits bool.splits option.splits)

lemma regenerate_frame:
  "template (snd (regenerateConfiguration env s)) = template s"
  "haproxyRunning (snd (regenerateConfiguration env s)) = haproxyRunning s"
  "exited (snd (regenerateConfiguration env s)) = exited s"
  by (simp_all add: regenerate_cases Let_def generateContext_frame
      split: sum.splits bool.splits option.splits)

lemma tick_cache:
  "dnsCache_srv (tick env s) = dnsCache_srv (snd (generateContext env s))"
proof -
  obtain r s' where rs: "regenerateConfiguration env s = (r, s')"
    by (cases "regenerateConfiguration env s")
  then have "dnsCache_srv s' = dnsCache_srv (snd (generateContext env s))"
    using regenerate_cache [of env s] by simp
  with rs show ?thesis
    by (cases r) (simp_all add: tick_def onFailure_def)
qed

lemma run_keys: "map fst (dnsCache_srv (run envs s)) = map fst (dnsCache_srv s)"
  by (induction envs arbitrary: s) (simp_all add: tick_cache generateContext_keys)

lemma main_cache_keys:
  "map fst (dnsCache_srv (snd (main env file))) = map fst (dryRun (templateSource env) [])"
proof -
  let ?s1 = "snd (checkTemplate env (initial_state file))"
  obtain r s2 where rs: "regenerateConfiguration env ?s1 = (r, s2)"
    by (cases "regenerateConfiguration env ?s1")
  then have "map fst (dnsCache_srv s2) = map fst (dnsCache_srv ?s1)"
    using regenerate_cache [of env ?s1] generateContext_keys [of env ?s1] by simp
  then have k: "map fst (dnsCache_srv s2) = map fst (dryRun (templateSource env) [])"
    by (simp add: checkTemplate_def initial_state_def)
  have c: "checkTemplate env (initial_state file) = (Fulfilled (), ?s1)"
    by (simp add: checkTemplate_def)
  show ?thesis
    unfolding main_def
    by (subst c) (cases r;
      simp add: then_p_def rs k verifyConfiguration_def startHAProxy_def scheduleRefresh_def
        onFailure_def split: option.splits)
qed

lemma generateContext_SrvQuery:
  "k \<in> fst ` set (dnsCache_srv s) \<Longrightarrow> SrvQuery k \<in> set (trace (snd (generateContext env s)))"
proof -
  assume k: "k \<in> fst ` set (dnsCache_srv s)"
  have "SrvQuery k \<in> set (snd (resolveSRV env k))"
    by (simp add: resolveSRV_def Let_def split: sum.splits)
  with k show ?thesis
    by (auto simp: generateContext_trace)
qed

lemma tick_unchanged:
  "materialChange env s = Inr False \<Longrightarrow> tick env s = snd (generateContext env s)"
  by (simp add: tick_def regenerate_unchanged)

lemma tick_get:
  "map_get (dnsCache_srv (tick env s)) k =
     (if k \<in> fst ` set (dnsCache_srv s)
      then (case fst (resolveSRV env k) of Fulfilled v \<Rightarrow> Some v | Rejected e \<Rightarrow> None | Pending \<Rightarrow> None)
      else None)"
  by (simp only: tick_cache generateContext_get)

lemma process_cache_keys:
  "map fst (dnsCache_srv (process env envs file)) = map fst (dryRun (templateSource env) [])"
  by (simp add: process_def Let_def run_keys main_cache_keys)

lemma queries_only:
  "list_all is_query u \<Longrightarrow>
   Verify \<notin> set u \<and> Start \<notin> set u \<and> Schedule \<notin> set u \<and> RefreshCompleted \<notin> set u"
  by (auto simp: list_all_iff)

lemma main_unchanged:
  assumes "materialChange env (snd (checkTemplate env (initial_state file))) = Inr False"
  shows "main env file =
     (Pending, snd (generateContext env (snd (checkTemplate env (initial_state file)))))"
proof -
  have c: "checkTemplate env (initial_state file) =
      (Fulfilled (), snd (checkTemplate env (initial_state file)))"
    by (simp add: checkTemplate_def)
  show ?thesis
    unfolding main_def
    by (subst c) (simp add: then_p_def regenerate_unchanged [OF assms])
qed

subsection \<open>Sorting, joining and the lookups of a resolution\<close>

lemma promise_all_Fulfilled: "promise_all ps = Fulfilled vs \<Longrightarrow> ps = map Fulfilled vs"
  by (induction ps arbitrary: vs) (auto split: promise.splits)

lemma set_insert_by: "set (insert_by cmp x xs) = insert x (set xs)"
  by (induction xs) auto

lemma set_js_sort: "set (js_sort cmp xs) = set xs"
  by (induction xs) (simp_all add: js_sort_def set_insert_by)

lemma resolveIP_Fulfilled:
  "fst (resolveIP env e) = Fulfilled x \<Longrightarrow>
   name x = name e \<and> (isV4Format env (name e) \<or> isV6Format env (name e) \<longrightarrow> ip x = Some (name e))"
  by (auto simp: resolveIP_def split: if_splits sum.splits)

lemma resolveIP_AddrQuery:
  "AddrQuery n \<in> set (snd (resolveIP env e)) \<Longrightarrow> \<not> isV4Format env n \<and> \<not> isV6Format env n"
  by (auto simp: resolveIP_def split: if_splits sum.splits)

lemma resolveSRV_AddrQuery:
  "\<not> isV4Format env n \<and> \<not> isV6Format env n" if "AddrQuery n \<in> set (snd (resolveSRV env k))"
proof (cases "dns_resolveSrv env k")
  case (Inl err)
  then show ?thesis using that by (simp add: resolveSRV_def)
next
  case (Inr result)
  have "AddrQuery n \<in> set (concat (map snd (map (resolveIP env) xs))) \<Longrightarrow>
        \<not> isV4Format env n \<and> \<not> isV6Format env n" for xs
    by (induction xs) (auto dest: resolveIP_AddrQuery)
  then show ?thesis
    using that Inr by (simp add: resolveSRV_def Let_def del: map_map split: if_splits)
qed

lemma resolveSRV_Fulfilled:
  assumes "fst (resolveSRV env k) = Fulfilled es" and "x \<in> set es"
  shows "\<exists>e. fst (resolveIP env e) = Fulfilled x"
proof (cases "dns_resolveSrv env k")
  case (Inl err)
  with assms show ?thesis by (simp add: resolveSRV_def)
next
  case (Inr result)
  show ?thesis
  proof (cases "result = []")
    case True
    with Inr assms show ?thesis by (simp add: resolveSRV_def)
  next
    case False
    with Inr assms(1)
    have "promise_all (map fst (map (resolveIP env)
            (js_sort (\<lambda>a b. localeCompare env (name a) (name b)) result))) = Fulfilled es"
      by (simp add: resolveSRV_def Let_def del: map_map)
    then have "map fst (map (resolveIP env)
            (js_sort (\<lambda>a b. localeCompare env (name a) (name b)) result)) = map Fulfilled es"
      by (rule promise_all_Fulfilled)
    then have "Fulfilled x \<in> set (map fst (map (resolveIP env)
            (js_sort (\<lambda>a b. localeCompare env (name a) (name b)) result)))"
      using assms(2) by simp
    then show ?thesis by auto
  qed
qed

subsection \<open>The examples, evaluated\<close>

lemma show_nat_8080: "show_nat 8080 = ''8080''"
  by (simp add: show_nat.simps digit_char_def)

lemma show_nat_8081: "show_nat 8081 = ''8081''"
  by (simp add: show_nat.simps digit_char_def)

lemma example_web:
  "resolveSRV (example_env k r) ''web'' =
     (Fulfilled [(srv ''s1.mesos'' 8080)\<lparr>ip := Some ''10.0.0.1''\<rparr>,
                 (srv ''s2.mesos'' 8080)\<lparr>ip := Some ''10.0.0.2''\<rparr>],
      [SrvQuery ''web'', AddrQuery ''s1.mesos'', AddrQuery ''s2.mesos''])"
  by (simp add: resolveSRV_def example_env_def example_resolveSrv_def js_sort_def srv_def
      resolveIP_def example_isV4Format_def example_isV6Format_def example_resolve_def
      first_address_def)

lemma example_db:
  "resolveSRV (example_env k r) ''db'' = (Rejected (DnsError ''ENOTFOUND''), [SrvQuery ''db''])"
  by (simp add: resolveSRV_def example_env_def example_resolveSrv_def)

lemma example_literal:
  "resolveSRV (example_env k r) ''literal'' =
     (Fulfilled [(srv ''10.0.0.9'' 53)\<lparr>ip := Some ''10.0.0.9''\<rparr>,
                 (srv ''::1'' 53)\<lparr>ip := Some ''::1''\<rparr>],
      [SrvQuery ''literal''])"
  by (simp add: resolveSRV_def example_env_def example_resolveSrv_def js_sort_def srv_def
      resolveIP_def example_isV4Format_def example_isV6Format_def)

lemma example_mixed:
  "resolveSRV (example_env k r) ''mixed'' =
     (Rejected (DnsError ''ENOTFOUND''),
      [SrvQuery ''mixed'', AddrQuery ''gone.mesos'', AddrQuery ''s1.mesos''])"
  by (simp add: resolveSRV_def example_env_def example_resolveSrv_def js_sort_def srv_def
      resolveIP_def example_isV4Format_def example_isV6Format_def example_resolve_def
      first_address_def)

lemma example_state_fields:
  "dnsCache_srv (example_state k file running) = [(k, None)]"
  "template (example_state k file running) = example_template k"
  "haproxyRunning (example_state k file running) = running"
  "configurationFile (example_state k file running) = file"
  "trace (example_state k file running) = []"
  "exited (example_state k file running) = None"
  by (simp_all add: example_state_def checkTemplate_def initial_state_def example_env_def
      example_template_def)

lemma example_web_cycle:
  "snd (generateContext (example_env k r) (example_state ''web'' file running)) =
     \<lparr>dnsCache_srv = [(''web'', Some [(srv ''s1.mesos'' 8080)\<lparr>ip := Some ''10.0.0.1''\<rparr>,
                                        (srv ''s2.mesos'' 8080)\<lparr>ip := Some ''10.0.0.2''\<rparr>])],
      template = example_template ''web'', haproxyRunning = running,
      configurationFile = file,
      trace = [SrvQuery ''web'', AddrQuery ''s1.mesos'', AddrQuery ''s2.mesos''],
      exited = None\<rparr>"
  by (simp add: generateContext_eq example_state_fields example_web)

lemma example_web_newConfig:
  "newConfig (snd (generateContext (example_env k r) (example_state ''web'' file running))) =
     example_web_config"
  by (simp add: example_web_cycle newConfig_def render_def render_chunk_def example_template_def
      gatherDataHelper_def map_get_def truthy_def example_block_def server_line_def srv_def
      show_nat_8080 example_web_config_def)

lemma example_diff_same: "example_diff example_web_file example_web_config =
    [\<lparr>chg_value = example_web_config, added = False, removed = False\<rparr>]"
  by (simp add: example_diff_def example_web_file_def example_web_config_def trim_def)

lemma example_diff_new: "example_diff [] example_web_config =
    [\<lparr>chg_value = [], added = False, removed = True\<rparr>,
     \<lparr>chg_value = example_web_config, added = True, removed = False\<rparr>]"
  by (simp add: example_diff_def example_web_config_def trim_def)

lemma example_env_diff: "diffTrimmedLines (example_env k r) = example_diff"
  by (simp add: example_env_def)

lemma example_unchanged:
  "materialChange (example_env k r) (example_state ''web'' (Some example_web_file) running) = Inr False"
  unfolding materialChange_def Let_def example_web_newConfig
  by (simp add: example_web_cycle originalConfig_def example_env_diff example_diff_same
      hasChanged_def)

lemma example_changed:
  "materialChange (example_env k r) (example_state ''web'' None running) = Inr True"
  unfolding materialChange_def Let_def example_web_newConfig
  by (simp add: example_web_cycle originalConfig_def example_env_diff example_diff_new
      hasChanged_def)

lemma example_two_keys_fields:
  "dnsCache_srv example_two_keys = [(''db'', None), (''web'', None)]"
  "trace example_two_keys = []"
  "exited example_two_keys = None"
  by (simp_all add: example_two_keys_def checkTemplate_def initial_state_def example_template_def)

lemma example_state_initial:
  "example_state k file False = snd (checkTemplate (example_env k None) (initial_state file))"
  by (simp add: example_state_def checkTemplate_def initial_state_def)

section \<open>The claims\<close>

subsection \<open>C1: a key without data renders nothing\<close>

text \<open>
  C1, as amended. The productive helper tests the cached value for truthiness. For a key
  whose value is Unresolved (\<open>undefined\<close>, also a key the cache does not have) the helper
  returns nothing without calling the block, and the rendered text is the text around
  the block. An empty endpoint list is truthy: the block is called once with the empty
  list as its context and its output is part of the rendered text.
\<close>

theorem C1_unresolved_block_ignored:
  "(map_get m dnsName = None \<longrightarrow>
      gatherDataHelper m dnsName fn = None \<and>
      render (gatherDataHelper m) (before @ DnsSrv dnsName fn # after) =
        render (gatherDataHelper m) before @ render (gatherDataHelper m) after) \<and>
   (map_get m dnsName = Some [] \<longrightarrow>
      gatherDataHelper m dnsName fn = Some (fn []) \<and>
      render (gatherDataHelper m) (before @ DnsSrv dnsName fn # after) =
        render (gatherDataHelper m) before @ fn [] @ render (gatherDataHelper m) after)"
  by (simp add: gatherDataHelper_def truthy_def render_def render_chunk_def)

theorem C1_unresolved_block_ignored_witness:
  "map_get [(''web'', None), (''idle'', Some [])] ''web'' = None \<and>
   map_get [(''web'', None), (''idle'', Some [])] ''idle'' = Some [] \<and>
   render (gatherDataHelper [(''web'', None), (''idle'', Some [])])
     ([Text ''global;''] @ DnsSrv ''web'' example_block # []) = ''global;'' \<and>
   render (gatherDataHelper [(''web'', None), (''idle'', Some [])])
     ([Text ''global;''] @ DnsSrv ''idle'' example_block # []) = ''global;'' @ example_block []"
  using C1_unresolved_block_ignored [of "[(''web'', None), (''idle'', Some [])]" "''web''"
      example_block "[Text ''global;'']" "[]"]
    C1_unresolved_block_ignored [of "[(''web'', None), (''idle'', Some [])]" "''idle''"
      example_block "[Text ''global;'']" "[]"]
  by (simp add: map_get_def render_def render_chunk_def)

text \<open>
  C1 as stated fails for the empty list: with the value \<open>[]\<close> cached for the key, the
  block is evaluated and its \<open>backend\<close> line is rendered.
\<close>

theorem C1_empty_list_counterexample:
  "map_get [(''idle'', Some [])] ''idle'' = Some [] \<and>
   gatherDataHelper [(''idle'', Some [])] ''idle'' example_block = Some (''backend b'' @ [CHR 0x0A]) \<and>
   render (gatherDataHelper [(''idle'', Some [])]) [DnsSrv ''idle'' example_block] =
     ''backend b'' @ [CHR 0x0A] \<and>
   render (gatherDataHelper [(''idle'', Some [])]) [DnsSrv ''idle'' example_block] \<noteq> []"
  by (simp add: map_get_def gatherDataHelper_def truthy_def render_def render_chunk_def
      example_block_def)

subsection \<open>C2: an unchanged rendering touches neither the file nor the service\<close>

text \<open>
  C2. When the trimmed-line diff of the persisted configuration and the rendered one
  reports no change (a single part, neither added nor removed), the cycle writes nothing
  to the configuration file and calls no reload: the file content and the writes and
  reloads of the trace are those before the cycle, for the promise of
  \<open>regenerateConfiguration\<close> and for the timer's firing alike.
\<close>

theorem C2_unchanged_no_write_no_reload:
  assumes "materialChange env s = Inr False"
  shows "configurationFile (snd (regenerateConfiguration env s)) = configurationFile s \<and>
         writes (trace (snd (regenerateConfiguration env s))) = writes (trace s) \<and>
         reloads (trace (snd (regenerateConfiguration env s))) = reloads (trace s) \<and>
         configurationFile (tick env s) = configurationFile s \<and>
         writes (trace (tick env s)) = writes (trace s) \<and>
         reloads (trace (tick env s)) = reloads (trace s)"
  using assms
  by (simp add: regenerate_unchanged tick_unchanged generateContext_frame generateContext_silent)

theorem C2_unchanged_no_write_no_reload_witness:
  "materialChange (example_env ''web'' None) (example_state ''web'' (Some example_web_file) True)
     = Inr False \<and>
   example_web_file \<noteq> example_web_config \<and>
   configurationFile (tick (example_env ''web'' None)
     (example_state ''web'' (Some example_web_file) True)) = Some example_web_file \<and>
   writes (trace (tick (example_env ''web'' None)
     (example_state ''web'' (Some example_web_file) True))) = [] \<and>
   reloads (trace (tick (example_env ''web'' None)
     (example_state ''web'' (Some example_web_file) True))) = 0"
proof -
  have un: "materialChange (example_env ''web'' None)
      (example_state ''web'' (Some example_web_file) True) = Inr False"
    by (rule example_unchanged)
  have ne: "example_web_file \<noteq> example_web_config"
    by (simp add: example_web_file_def example_web_config_def)
  show ?thesis
    using C2_unchanged_no_write_no_reload [OF un] un ne
    by (simp add: example_state_fields)
qed

subsection \<open>C3: one key's failure leaves the other keys alone\<close>

text \<open>
  C3. The join of a cycle always completes, and for every key of the cache the service
  lookup is sent and the value the cycle stores depends on that key's own resolution
  only: the resolved list when it is fulfilled, Unresolved when it is rejected. In
  particular a key whose service-record lookup fails becomes Unresolved, whatever the
  other keys do.
\<close>

theorem C3_lookup_failures_are_isolated:
  assumes "k \<in> fst ` set (dnsCache_srv s)"
  shows "fst (generateContext env s) = Fulfilled () \<and>
         SrvQuery k \<in> set (trace (snd (generateContext env s))) \<and>
         map_get (dnsCache_srv (snd (generateContext env s))) k =
           (case fst (resolveSRV env k) of
              Fulfilled v \<Rightarrow> Some v | Rejected e \<Rightarrow> None | Pending \<Rightarrow> None) \<and>
         (\<forall>err. dns_resolveSrv env k = Inl err \<longrightarrow>
            map_get (dnsCache_srv (snd (generateContext env s))) k = None)"
proof -
  have "map_get (dnsCache_srv (snd (generateContext env s))) k = None"
    if "dns_resolveSrv env k = Inl err" for err
    using that assms by (simp add: generateContext_get resolveSRV_def)
  with assms show ?thesis
    by (simp add: generateContext_fst generateContext_SrvQuery generateContext_get)
qed

theorem C3_lookup_failures_are_isolated_witness:
  "''db'' \<in> fst ` set (dnsCache_srv example_two_keys) \<and>
   ''web'' \<in> fst ` set (dnsCache_srv example_two_keys) \<and>
   dns_resolveSrv (example_env ''db'' None) ''db'' = Inl (DnsError ''ENOTFOUND'') \<and>
   map_get (dnsCache_srv (snd (generateContext (example_env ''db'' None) example_two_keys))) ''db''
     = None \<and>
   map_get (dnsCache_srv (snd (generateContext (example_env ''db'' None) example_two_keys))) ''web''
     = Some [(srv ''s1.mesos'' 8080)\<lparr>ip := Some ''10.0.0.1''\<rparr>,
             (srv ''s2.mesos'' 8080)\<lparr>ip := Some ''10.0.0.2''\<rparr>] \<and>
   SrvQuery ''web'' \<in> set (trace (snd (generateContext (example_env ''db'' None) example_two_keys)))"
proof -
  have db: "''db'' \<in> fst ` set (dnsCache_srv example_two_keys)"
    and web: "''web'' \<in> fst ` set (dnsCache_srv example_two_keys)"
    by (simp_all add: example_two_keys_fields)
  have err: "dns_resolveSrv (example_env ''db'' None) ''db'' = Inl (DnsError ''ENOTFOUND'')"
    by (simp add: example_env_def example_resolveSrv_def)
  show ?thesis
    using C3_lookup_failures_are_isolated [OF db, of "example_env ''db'' None"]
      C3_lookup_failures_are_isolated [OF web, of "example_env ''db'' None"] db web err
    by (simp add: example_web example_db)
qed

subsection \<open>C4: all targets of a key resolve, or the key is Unresolved\<close>

text \<open>
  C4. When the service lookup of a key answers with targets and the address lookup fails
  for one target whose name is not a literal address, the key's resolution is rejected
  and the cycle stores Unresolved for the key, not the list of the targets that resolved.
\<close>

theorem C4_one_missing_address_fails_the_key:
  assumes "k \<in> fst ` set (dnsCache_srv s)"
    and "dns_resolveSrv env k = Inr result" and "t \<in> set result"
    and "\<not> isV4Format env (name t)" and "\<not> isV6Format env (name t)"
    and "dns_resolve env (name t) = Inl err"
  shows "(\<exists>e. fst (resolveSRV env k) = Rejected e) \<and>
         map_get (dnsCache_srv (snd (generateContext env s))) k = None"
proof -
  let ?sorted = "js_sort (\<lambda>a b. localeCompare env (name a) (name b)) result"
  have "fst (resolveIP env t) = Rejected err"
    using assms(4-6) by (simp add: resolveIP_def)
  moreover have "t \<in> set ?sorted"
    using assms(3) by (simp add: set_js_sort)
  ultimately have "Rejected err \<in> set (map fst (map (resolveIP env) ?sorted))"
    by force
  then obtain e where "promise_all (map fst (map (resolveIP env) ?sorted)) = Rejected e"
    using promise_all_rejects by blast
  moreover have "result \<noteq> []"
    using assms(3) by auto
  ultimately have r: "fst (resolveSRV env k) = Rejected e"
    using assms(2) by (simp add: resolveSRV_def Let_def del: map_map)
  with assms(1) show ?thesis
    by (simp add: generateContext_get)
qed

theorem C4_one_missing_address_fails_the_key_witness:
  "''mixed'' \<in> fst ` set (dnsCache_srv (example_state ''mixed'' None False)) \<and>
   dns_resolveSrv (example_env ''mixed'' None) ''mixed'' =
     Inr [srv ''s1.mesos'' 9000, srv ''gone.mesos'' 9000] \<and>
   dns_resolve (example_env ''mixed'' None) ''s1.mesos'' = Inr [''10.0.0.1''] \<and>
   dns_resolve (example_env ''mixed'' None) ''gone.mesos'' = Inl (DnsError ''ENOTFOUND'') \<and>
   fst (resolveSRV (example_env ''mixed'' None) ''mixed'') = Rejected (DnsError ''ENOTFOUND'') \<and>
   map_get (dnsCache_srv (snd (generateContext (example_env ''mixed'' None)
     (example_state ''mixed'' None False)))) ''mixed'' = None"
proof -
  have k: "''mixed'' \<in> fst ` set (dnsCache_srv (example_state ''mixed'' None False))"
    by (simp add: example_state_fields)
  have a: "dns_resolveSrv (example_env ''mixed'' None) ''mixed'' =
     Inr [srv ''s1.mesos'' 9000, srv ''gone.mesos'' 9000]"
    by (simp add: example_env_def example_resolveSrv_def)
  have t: "srv ''gone.mesos'' 9000 \<in> set [srv ''s1.mesos'' 9000, srv ''gone.mesos'' 9000]"
    by simp
  have v4: "\<not> isV4Format (example_env ''mixed'' None) (name (srv ''gone.mesos'' 9000))"
    and v6: "\<not> isV6Format (example_env ''mixed'' None) (name (srv ''gone.mesos'' 9000))"
    by (simp_all add: example_env_def example_isV4Format_def example_isV6Format_def srv_def)
  have e: "dns_resolve (example_env ''mixed'' None) (name (srv ''gone.mesos'' 9000)) =
     Inl (DnsError ''ENOTFOUND'')"
    by (simp add: example_env_def example_resolve_def srv_def)
  have ok: "dns_resolve (example_env ''mixed'' None) ''s1.mesos'' = Inr [''10.0.0.1'']"
    by (simp add: example_env_def example_resolve_def)
  show ?thesis
    using C4_one_missing_address_fails_the_key [OF k a t v4 v6 e] k a e ok
    by (simp add: example_mixed srv_def)
qed

subsection \<open>C5: literal addresses\<close>

text \<open>
  C5. For a target whose name the format tests accept as an IPv4 or IPv6 literal,
  \<open>resolveIP\<close> sends no address lookup and fulfils with the entry whose \<open>ip\<close> is the name.
  Within a key's resolution, no address lookup is sent for such a name, and every
  resolved endpoint of that name has the name as its \<open>ip\<close>.
\<close>

theorem C5_literal_address_used_directly:
  "(isV4Format env (name e) \<or> isV6Format env (name e) \<longrightarrow>
      resolveIP env e = (Fulfilled (e\<lparr>ip := Some (name e)\<rparr>), [])) \<and>
   (isV4Format env n \<or> isV6Format env n \<longrightarrow>
      AddrQuery n \<notin> set (snd (resolveSRV env k)) \<and>
      (\<forall>es. fst (resolveSRV env k) = Fulfilled es \<longrightarrow>
         (\<forall>x \<in> set es. name x = n \<longrightarrow> ip x = Some n)))"
proof (intro conjI impI allI ballI)
  assume "isV4Format env (name e) \<or> isV6Format env (name e)"
  then show "resolveIP env e = (Fulfilled (e\<lparr>ip := Some (name e)\<rparr>), [])"
    by (simp add: resolveIP_def)
next
  assume "isV4Format env n \<or> isV6Format env n"
  then show "AddrQuery n \<notin> set (snd (resolveSRV env k))"
    using resolveSRV_AddrQuery by blast
next
  fix es x
  assume lit: "isV4Format env n \<or> isV6Format env n"
    and es: "fst (resolveSRV env k) = Fulfilled es" and x: "x \<in> set es" and n: "name x = n"
  from resolveSRV_Fulfilled [OF es x] obtain e where "fst (resolveIP env e) = Fulfilled x"
    by blast
  from resolveIP_Fulfilled [OF this] lit n show "ip x = Some n" by auto
qed

theorem C5_literal_address_used_directly_witness:
  "example_isV4Format ''10.0.0.9'' \<and>
   resolveIP (example_env ''literal'' None) (srv ''10.0.0.9'' 53) =
     (Fulfilled ((srv ''10.0.0.9'' 53)\<lparr>ip := Some ''10.0.0.9''\<rparr>), []) \<and>
   resolveSRV (example_env ''literal'' None) ''literal'' =
     (Fulfilled [(srv ''10.0.0.9'' 53)\<lparr>ip := Some ''10.0.0.9''\<rparr>,
                 (srv ''::1'' 53)\<lparr>ip := Some ''::1''\<rparr>],
      [SrvQuery ''literal'']) \<and>
   AddrQuery ''10.0.0.9'' \<notin> set (snd (resolveSRV (example_env ''literal'' None) ''literal''))"
  using C5_literal_address_used_directly [of "example_env ''literal'' None" "srv ''10.0.0.9'' 53"
      "''10.0.0.9''" "''literal''"]
  by (simp add: example_literal) (simp add: example_env_def example_isV4Format_def srv_def)

subsection \<open>C6: the order of a DNS answer\<close>

text \<open>
  Where the comparator orders the targets of an answer totally and no two different
  targets compare equal, sorting forgets the order of the answer: two answers that are
  permutations of each other resolve to the same outcome and send the same lookups.
\<close>

lemma mset_insert_by: "mset (insert_by cmp x xs) = add_mset x (mset xs)"
  by (induction xs) auto

lemma mset_js_sort: "mset (js_sort cmp xs) = mset xs"
  by (induction xs) (simp_all add: js_sort_def mset_insert_by)

lemma sorted_insert_by:
  assumes total: "\<forall>a \<in> A. \<forall>b \<in> A. cmp a b \<le> 0 \<or> cmp b a \<le> 0"
    and trans: "\<forall>a \<in> A. \<forall>b \<in> A. \<forall>c \<in> A. cmp a b \<le> 0 \<longrightarrow> cmp b c \<le> 0 \<longrightarrow> cmp a c \<le> 0"
    and "x \<in> A" and "set xs \<subseteq> A" and "sorted_wrt (\<lambda>a b. cmp a b \<le> 0) xs"
  shows "sorted_wrt (\<lambda>a b. cmp a b \<le> 0) (insert_by cmp x xs)"
  using assms(3-5)
proof (induction xs)
  case Nil
  then show ?case by simp
next
  case (Cons y ys)
  show ?case
  proof (cases "cmp x y \<le> 0")
    case True
    have "cmp x z \<le> 0" if "z \<in> set ys" for z
    proof -
      have "cmp y z \<le> 0" using Cons.prems(3) that by simp
      with True trans Cons.prems(1,2) that show ?thesis
        by (meson list.set_intros subsetD)
    qed
    with True Cons.prems(3) show ?thesis by simp
  next
    case False
    then have yx: "cmp y x \<le> 0"
      using total Cons.prems(1,2) by (meson list.set_intros(1) subsetD)
    have "sorted_wrt (\<lambda>a b. cmp a b \<le> 0) (insert_by cmp x ys)"
      using Cons by simp
    moreover have "cmp y z \<le> 0" if "z \<in> set (insert_by cmp x ys)" for z
      using that yx Cons.prems(3) by (auto simp: set_insert_by)
    ultimately show ?thesis using False by simp
  qed
qed

lemma sorted_js_sort:
  assumes "\<forall>a \<in> A. \<forall>b \<in> A. cmp a b \<le> 0 \<or> cmp b a \<le> 0"
    and "\<forall>a \<in> A. \<forall>b \<in> A. \<forall>c \<in> A. cmp a b \<le> 0 \<longrightarrow> cmp b c \<le> 0 \<longrightarrow> cmp a c \<le> 0"
    and "set xs \<subseteq> A"
  shows "sorted_wrt (\<lambda>a b. cmp a b \<le> 0) (js_sort cmp xs)"
  using assms(3)
proof (induction xs)
  case Nil
  then show ?case by (simp add: js_sort_def)
next
  case (Cons x xs)
  then have "sorted_wrt (\<lambda>a b. cmp a b \<le> 0) (js_sort cmp xs)" by simp
  moreover have "set (js_sort cmp xs) \<subseteq> A" using Cons.prems by (simp add: set_js_sort)
  moreover have "x \<in> A" using Cons.prems by simp
  ultimately have "sorted_wrt (\<lambda>a b. cmp a b \<le> 0) (insert_by cmp x (js_sort cmp xs))"
    using sorted_insert_by [OF assms(1,2)] by blast
  then show ?case by (simp add: js_sort_def)
qed

lemma sorted_wrt_mset_unique:
  assumes "\<forall>a \<in> set xs. \<forall>b \<in> set xs. R a b \<longrightarrow> R b a \<longrightarrow> a = b"
    and "sorted_wrt R xs" and "sorted_wrt R ys" and "mset xs = mset ys"
  shows "xs = ys"
  using assms
proof (induction xs arbitrary: ys)
  case Nil
  then show ?case by simp
next
  case (Cons x xs)
  then obtain y ys' where ys: "ys = y # ys'" by (cases ys) auto
  have sets: "set (x # xs) = set (y # ys')"
    using Cons.prems(4) ys by (metis mset_eq_setD)
  have "x = y"
  proof (rule ccontr)
    assume ne: "x \<noteq> y"
    then have "x \<in> set ys'" and "y \<in> set xs" using sets by auto
    then have "R y x" and "R x y" using Cons.prems(2,3) ys by auto
    moreover have "y \<in> set (x # xs)" using sets by simp
    ultimately show False using Cons.prems(1) ne by auto
  qed
  moreover have "xs = ys'"
  proof (rule Cons.IH)
    show "\<forall>a \<in> set xs. \<forall>b \<in> set xs. R a b \<longrightarrow> R b a \<longrightarrow> a = b"
      using Cons.prems(1) by simp
    show "sorted_wrt R xs" using Cons.prems(2) by simp
    show "sorted_wrt R ys'" using Cons.prems(3) ys by simp
    show "mset xs = mset ys'" using Cons.prems(4) ys \<open>x = y\<close> by simp
  qed
  ultimately show ?case using ys by simp
qed

lemma js_sort_permutation:
  assumes total: "\<forall>a \<in> set xs. \<forall>b \<in> set xs. cmp a b \<le> 0 \<or> cmp b a \<le> 0"
    and trans: "\<forall>a \<in> set xs. \<forall>b \<in> set xs. \<forall>c \<in> set xs.
        cmp a b \<le> 0 \<longrightarrow> cmp b c \<le> 0 \<longrightarrow> cmp a c \<le> 0"
    and apart: "\<forall>a \<in> set xs. \<forall>b \<in> set xs. cmp a b \<le> 0 \<longrightarrow> cmp b a \<le> 0 \<longrightarrow> a = b"
    and perm: "mset xs = mset ys"
  shows "js_sort cmp xs = js_sort cmp ys"
proof (rule sorted_wrt_mset_unique [where R = "\<lambda>a b. cmp a b \<le> 0"])
  show "\<forall>a\<in>set (js_sort cmp xs). \<forall>b\<in>set (js_sort cmp xs). cmp a b \<le> 0 \<longrightarrow> cmp b a \<le> 0 \<longrightarrow> a = b"
    using apart by (simp add: set_js_sort)
  show "sorted_wrt (\<lambda>a b. cmp a b \<le> 0) (js_sort cmp xs)"
    by (rule sorted_js_sort [OF total trans]) simp
  have "set ys = set xs" using perm by (metis mset_eq_setD)
  then show "sorted_wrt (\<lambda>a b. cmp a b \<le> 0) (js_sort cmp ys)"
    by (intro sorted_js_sort [OF total trans]) simp
  show "mset (js_sort cmp xs) = mset (js_sort cmp ys)"
    using perm by (simp add: mset_js_sort)
qed

lemma resolveSRV_permutation:
  assumes a: "dns_resolveSrv env k = Inr xs"
    and total: "\<forall>a \<in> set xs. \<forall>b \<in> set xs.
        localeCompare env (name a) (name b) \<le> 0 \<or> localeCompare env (name b) (name a) \<le> 0"
    and trans: "\<forall>a \<in> set xs. \<forall>b \<in> set xs. \<forall>c \<in> set xs.
        localeCompare env (name a) (name b) \<le> 0 \<longrightarrow> localeCompare env (name b) (name c) \<le> 0 \<longrightarrow>
        localeCompare env (name a) (name c) \<le> 0"
    and apart: "\<forall>a \<in> set xs. \<forall>b \<in> set xs.
        localeCompare env (name a) (name b) \<le> 0 \<longrightarrow> localeCompare env (name b) (name a) \<le> 0 \<longrightarrow>
        a = b"
    and perm: "mset xs = mset ys"
  shows "resolveSRV (env\<lparr>dns_resolveSrv := (dns_resolveSrv env)(k := Inr ys)\<rparr>) k = resolveSRV env k"
proof -
  let ?env' = "env\<lparr>dns_resolveSrv := (dns_resolveSrv env)(k := Inr ys)\<rparr>"
  let ?cmp = "\<lambda>a b. localeCompare env (name a) (name b)"
  have ip: "resolveIP ?env' = resolveIP env"
    by (simp add: resolveIP_def fun_eq_iff)
  have len: "length ys = length xs"
    using perm by (metis size_mset)
  have srt: "js_sort ?cmp ys = js_sort ?cmp xs"
    by (rule js_sort_permutation [OF total trans apart perm, symmetric])
  show ?thesis
    using a len by (simp add: resolveSRV_def ip srt)
qed

text \<open>
  The comparator reads the names only, so two targets of one host (the same name, two
  ports) compare equal and keep the order the answer gave them.
\<close>

lemma example_twoports:
  "resolveSRV (example_env k r) ''twoports'' =
     (Fulfilled [(srv ''s1.mesos'' 8080)\<lparr>ip := Some ''10.0.0.1''\<rparr>,
                 (srv ''s1.mesos'' 8081)\<lparr>ip := Some ''10.0.0.1''\<rparr>],
      [SrvQuery ''twoports'', AddrQuery ''s1.mesos'', AddrQuery ''s1.mesos''])"
  by (simp add: resolveSRV_def example_env_def example_resolveSrv_def js_sort_def srv_def
      resolveIP_def example_isV4Format_def example_isV6Format_def example_resolve_def
      first_address_def)

lemma example_twoports_reversed:
  "resolveSRV (example_env_reversed k r) ''twoports'' =
     (Fulfilled [(srv ''s1.mesos'' 8081)\<lparr>ip := Some ''10.0.0.1''\<rparr>,
                 (srv ''s1.mesos'' 8080)\<lparr>ip := Some ''10.0.0.1''\<rparr>],
      [SrvQuery ''twoports'', AddrQuery ''s1.mesos'', AddrQuery ''s1.mesos''])"
  by (simp add: resolveSRV_def example_env_reversed_def example_env_def
      example_resolveSrv_reversed_def example_resolveSrv_def js_sort_def srv_def
      resolveIP_def example_isV4Format_def example_isV6Format_def example_resolve_def
      first_address_def)

lemma example_twoports_cycle:
  "snd (generateContext (example_env k r) (example_state ''twoports'' cfg running)) =
     \<lparr>dnsCache_srv = [(''twoports'', Some [(srv ''s1.mesos'' 8080)\<lparr>ip := Some ''10.0.0.1''\<rparr>,
                                        (srv ''s1.mesos'' 8081)\<lparr>ip := Some ''10.0.0.1''\<rparr>])],
      template = example_template ''twoports'', haproxyRunning = running,
      configurationFile = cfg,
      trace = [SrvQuery ''twoports'', AddrQuery ''s1.mesos'', AddrQuery ''s1.mesos''],
      exited = None\<rparr>"
  by (simp add: generateContext_eq example_state_fields example_twoports)

lemma example_twoports_cycle_reversed:
  "snd (generateContext (example_env_reversed k r) (example_state ''twoports'' cfg running)) =
     \<lparr>dnsCache_srv = [(''twoports'', Some [(srv ''s1.mesos'' 8081)\<lparr>ip := Some ''10.0.0.1''\<rparr>,
                                        (srv ''s1.mesos'' 8080)\<lparr>ip := Some ''10.0.0.1''\<rparr>])],
      template = example_template ''twoports'', haproxyRunning = running,
      configurationFile = cfg,
      trace = [SrvQuery ''twoports'', AddrQuery ''s1.mesos'', AddrQuery ''s1.mesos''],
      exited = None\<rparr>"
  by (simp add: generateContext_eq example_state_fields example_twoports_reversed)

lemma example_twoports_newConfig:
  "newConfig (snd (generateContext (example_env k r) (example_state ''twoports'' cfg running))) =
     example_twoports_config"
  by (simp add: example_twoports_cycle newConfig_def render_def render_chunk_def
      example_template_def gatherDataHelper_def map_get_def truthy_def example_block_def
      server_line_def srv_def show_nat_8080 show_nat_8081 example_twoports_config_def)

lemma example_twoports_newConfig_reversed:
  "newConfig (snd (generateContext (example_env_reversed k r)
       (example_state ''twoports'' cfg running))) =
     example_twoports_config_reversed"
  by (simp add: example_twoports_cycle_reversed newConfig_def render_def render_chunk_def
      example_template_def gatherDataHelper_def map_get_def truthy_def example_block_def
      server_line_def srv_def show_nat_8080 show_nat_8081 example_twoports_config_reversed_def)

lemma example_diff_reversed:
  "example_diff example_twoports_config example_twoports_config_reversed =
    [\<lparr>chg_value = example_twoports_config, added = False, removed = True\<rparr>,
     \<lparr>chg_value = example_twoports_config_reversed, added = True, removed = False\<rparr>]"
  by (simp add: example_diff_def example_twoports_config_def example_twoports_config_reversed_def
      trim_def)

lemma example_env_reversed_diff: "diffTrimmedLines (example_env_reversed k r) = example_diff"
  by (simp add: example_env_reversed_def example_env_def)

lemma example_reversed_changed:
  "materialChange (example_env_reversed k r)
     (example_state ''twoports'' (Some example_twoports_config) running) = Inr True"
  unfolding materialChange_def Let_def example_twoports_newConfig_reversed
  by (simp add: example_twoports_cycle_reversed originalConfig_def example_env_reversed_diff
      example_diff_reversed hasChanged_def)

text \<open>
  C6 fails on such an answer. The SRV answer for \<open>twoports\<close> holds one host with the
  ports 8080 and 8081; the second world enumerates the same two targets in the opposite
  order. The lists stored in the cache differ, the rendered configurations differ, and
  a cycle that sees the reordered answer after the first configuration was written
  finds a change and reloads HAProxy.
\<close>

theorem C6_equal_names_keep_the_answer_order:
  "dns_resolveSrv (example_env ''twoports'' None) ''twoports'' =
     Inr [srv ''s1.mesos'' 8080, srv ''s1.mesos'' 8081] \<and>
   dns_resolveSrv (example_env_reversed ''twoports'' None) ''twoports'' =
     Inr (rev [srv ''s1.mesos'' 8080, srv ''s1.mesos'' 8081]) \<and>
   dnsCache_srv (snd (generateContext (example_env ''twoports'' None)
       (example_state ''twoports'' None True))) =
     [(''twoports'', Some [(srv ''s1.mesos'' 8080)\<lparr>ip := Some ''10.0.0.1''\<rparr>,
                          (srv ''s1.mesos'' 8081)\<lparr>ip := Some ''10.0.0.1''\<rparr>])] \<and>
   dnsCache_srv (snd (generateContext (example_env_reversed ''twoports'' None)
       (example_state ''twoports'' None True))) =
     [(''twoports'', Some [(srv ''s1.mesos'' 8081)\<lparr>ip := Some ''10.0.0.1''\<rparr>,
                          (srv ''s1.mesos'' 8080)\<lparr>ip := Some ''10.0.0.1''\<rparr>])] \<and>
   newConfig (snd (generateContext (example_env ''twoports'' None)
       (example_state ''twoports'' None True))) = example_twoports_config \<and>
   newConfig (snd (generateContext (example_env_reversed ''twoports'' None)
       (example_state ''twoports'' None True))) = example_twoports_config_reversed \<and>
   example_twoports_config \<noteq> example_twoports_config_reversed \<and>
   materialChange (example_env_reversed ''twoports'' None)
     (example_state ''twoports'' (Some example_twoports_config) True) = Inr True \<and>
   reloads (trace (tick (example_env_reversed ''twoports'' None)
     (example_state ''twoports'' (Some example_twoports_config) True))) = 1"
proof -
  have a: "dns_resolveSrv (example_env ''twoports'' None) ''twoports'' =
     Inr [srv ''s1.mesos'' 8080, srv ''s1.mesos'' 8081]"
    by (simp add: example_env_def example_resolveSrv_def)
  have b: "dns_resolveSrv (example_env_reversed ''twoports'' None) ''twoports'' =
     Inr (rev [srv ''s1.mesos'' 8080, srv ''s1.mesos'' 8081])"
    by (simp add: example_env_reversed_def example_resolveSrv_reversed_def example_resolveSrv_def)
  have ne: "example_twoports_config \<noteq> example_twoports_config_reversed"
    by (simp add: example_twoports_config_def example_twoports_config_reversed_def)
  have ch: "materialChange (example_env_reversed ''twoports'' None)
     (example_state ''twoports'' (Some example_twoports_config) True) = Inr True"
    by (rule example_reversed_changed)
  have ru: "haproxyRunning (example_state ''twoports'' (Some example_twoports_config) True)"
    by (simp add: example_state_fields)
  have re: "haproxy_reload (example_env_reversed ''twoports'' None) = None"
    by (simp add: example_env_reversed_def example_env_def)
  have rl: "reloads (trace (tick (example_env_reversed ''twoports'' None)
     (example_state ''twoports'' (Some example_twoports_config) True))) = 1"
    using ru re
    by (simp add: tick_def regenerate_changed [OF ch] Let_def reloads_append
        generateContext_silent example_state_fields)
  have c: "dnsCache_srv (snd (generateContext (example_env ''twoports'' None)
       (example_state ''twoports'' None True))) =
     [(''twoports'', Some [(srv ''s1.mesos'' 8080)\<lparr>ip := Some ''10.0.0.1''\<rparr>,
                          (srv ''s1.mesos'' 8081)\<lparr>ip := Some ''10.0.0.1''\<rparr>])]"
    by (simp add: example_twoports_cycle)
  have d: "dnsCache_srv (snd (generateContext (example_env_reversed ''twoports'' None)
       (example_state ''twoports'' None True))) =
     [(''twoports'', Some [(srv ''s1.mesos'' 8081)\<lparr>ip := Some ''10.0.0.1''\<rparr>,
                          (srv ''s1.mesos'' 8080)\<lparr>ip := Some ''10.0.0.1''\<rparr>])]"
    by (simp add: example_twoports_cycle_reversed)
  note n = example_twoports_newConfig [of "''twoports''" None None True]
  note m = example_twoports_newConfig_reversed [of "''twoports''" None None True]
  from a b c d n m ne ch rl show ?thesis
    by (intro conjI)
qed

subsection \<open>C7: the keys of the cache never change after the scan\<close>

text \<open>
  C7. Over any sequence of timer firings the keys of the cache, in their order, are those
  before the sequence; over the whole process they are the keys the dry run of the
  template recorded. One cycle neither adds nor removes a key: it replaces the value of
  every key by the key's fresh result, the resolved list (populated or empty) when the
  resolution is fulfilled and Unresolved otherwise.
\<close>

theorem C7_key_set_is_invariant:
  "map fst (dnsCache_srv (run envs s)) = map fst (dnsCache_srv s) \<and>
   map fst (dnsCache_srv (process env envs cfg)) = map fst (dryRun (templateSource env) []) \<and>
   map fst (dnsCache_srv (tick env s)) = map fst (dnsCache_srv s) \<and>
   (\<forall>k \<in> fst ` set (dnsCache_srv s).
      map_get (dnsCache_srv (tick env s)) k =
        (case fst (resolveSRV env k) of
           Fulfilled v \<Rightarrow> Some v | Rejected e \<Rightarrow> None | Pending \<Rightarrow> None))"
proof (intro conjI ballI)
  show "map fst (dnsCache_srv (run envs s)) = map fst (dnsCache_srv s)"
    by (rule run_keys)
  show "map fst (dnsCache_srv (process env envs cfg)) = map fst (dryRun (templateSource env) [])"
    by (rule process_cache_keys)
  show "map fst (dnsCache_srv (tick env s)) = map fst (dnsCache_srv s)"
    by (simp add: tick_cache generateContext_keys)
next
  fix k
  assume "k \<in> fst ` set (dnsCache_srv s)"
  then show "map_get (dnsCache_srv (tick env s)) k =
        (case fst (resolveSRV env k) of
           Fulfilled v \<Rightarrow> Some v | Rejected e \<Rightarrow> None | Pending \<Rightarrow> None)"
    by (simp only: tick_get if_True)
qed

theorem C7_key_set_is_invariant_witness:
  "map fst (dnsCache_srv example_two_keys) = [''db'', ''web''] \<and>
   map fst (dnsCache_srv (run [example_env ''db'' None, example_env ''web'' None,
       example_env ''db'' None] example_two_keys)) = [''db'', ''web''] \<and>
   map_get (dnsCache_srv (tick (example_env ''db'' None) example_two_keys)) ''db'' = None \<and>
   map_get (dnsCache_srv (tick (example_env ''db'' None) example_two_keys)) ''web'' =
     Some [(srv ''s1.mesos'' 8080)\<lparr>ip := Some ''10.0.0.1''\<rparr>,
           (srv ''s2.mesos'' 8080)\<lparr>ip := Some ''10.0.0.2''\<rparr>]"
proof -
  have k: "map fst (dnsCache_srv example_two_keys) = [''db'', ''web'']"
    by (simp add: example_two_keys_fields)
  have "\<forall>k \<in> {''db'', ''web''}.
      map_get (dnsCache_srv (tick (example_env ''db'' None) example_two_keys)) k =
        (case fst (resolveSRV (example_env ''db'' None) k) of
           Fulfilled v \<Rightarrow> Some v | Rejected e \<Rightarrow> None | Pending \<Rightarrow> None)"
    using C7_key_set_is_invariant [where envs = "[]" and s = example_two_keys
        and env = "example_env ''db'' None" and cfg = None]
    by (simp add: example_two_keys_fields)
  then have v: "map_get (dnsCache_srv (tick (example_env ''db'' None) example_two_keys)) ''db'' = None"
    "map_get (dnsCache_srv (tick (example_env ''db'' None) example_two_keys)) ''web'' =
     Some [(srv ''s1.mesos'' 8080)\<lparr>ip := Some ''10.0.0.1''\<rparr>,
           (srv ''s2.mesos'' 8080)\<lparr>ip := Some ''10.0.0.2''\<rparr>]"
    by (simp_all add: example_web example_db)
  show ?thesis
    using C7_key_set_is_invariant [where envs = "[example_env ''db'' None,
        example_env ''web'' None, example_env ''db'' None]" and s = example_two_keys
        and env = "example_env ''db'' None" and cfg = None] k v
    by simp
qed

subsection \<open>C8: a change before the service runs\<close>

text \<open>
  C8. When the diff reports a change and \<open>haproxyRunning\<close> is false, the cycle overwrites
  the configuration file with the rendered text and its promise is fulfilled; no reload
  is called, and the timer's firing logs its completion and leaves the process running.
\<close>

theorem C8_change_before_start_writes_only:
  assumes "materialChange env s = Inr True" and "\<not> haproxyRunning s"
  shows "fst (regenerateConfiguration env s) = Fulfilled () \<and>
         configurationFile (snd (regenerateConfiguration env s)) =
           Some (newConfig (snd (generateContext env s))) \<and>
         writes (trace (snd (regenerateConfiguration env s))) =
           writes (trace s) @ [newConfig (snd (generateContext env s))] \<and>
         reloads (trace (snd (regenerateConfiguration env s))) = reloads (trace s) \<and>
         exited (tick env s) = exited s \<and>
         trace (tick env s) = trace (snd (regenerateConfiguration env s)) @ [RefreshCompleted] \<and>
         configurationFile (tick env s) = Some (newConfig (snd (generateContext env s)))"
  using assms
  by (simp add: regenerate_changed tick_def Let_def generateContext_frame generateContext_silent
      writes_append reloads_append)

theorem C8_change_before_start_writes_only_witness:
  "materialChange (example_env ''web'' None) (example_state ''web'' None False) = Inr True \<and>
   \<not> haproxyRunning (example_state ''web'' None False) \<and>
   fst (regenerateConfiguration (example_env ''web'' None) (example_state ''web'' None False)) =
     Fulfilled () \<and>
   configurationFile (tick (example_env ''web'' None) (example_state ''web'' None False)) =
     Some example_web_config \<and>
   reloads (trace (tick (example_env ''web'' None) (example_state ''web'' None False))) = 0 \<and>
   exited (tick (example_env ''web'' None) (example_state ''web'' None False)) = None"
proof -
  have ch: "materialChange (example_env ''web'' None) (example_state ''web'' None False) = Inr True"
    by (rule example_changed)
  have nr: "\<not> haproxyRunning (example_state ''web'' None False)"
    by (simp add: example_state_fields)
  show ?thesis
    using C8_change_before_start_writes_only [OF ch nr] ch nr
    by (simp add: example_web_newConfig example_state_fields reloads_append)
qed

subsection \<open>C9: a failed reload ends the process\<close>

text \<open>
  C9. When the diff reports a change, \<open>haproxyRunning\<close> is true and the reload callback
  reports an error, the reload was called once, the cycle's promise is rejected with
  that error, and the timer's failure handler exits the process with the status \<open>-1\<close>,
  which is not zero; no later firing runs.
\<close>

theorem C9_reload_failure_is_fatal:
  assumes "materialChange env s = Inr True" and "haproxyRunning s"
    and "haproxy_reload env = Some err"
  shows "fst (regenerateConfiguration env s) = Rejected err \<and>
         reloads (trace (snd (regenerateConfiguration env s))) = Suc (reloads (trace s)) \<and>
         exited (tick env s) = Some (- 1) \<and>
         (\<exists>c. exited (tick env s) = Some c \<and> c \<noteq> 0) \<and>
         trace (tick env s) = trace (snd (regenerateConfiguration env s)) @ [Exit (- 1)] \<and>
         run envs (tick env s) = tick env s"
proof -
  have r: "fst (regenerateConfiguration env s) = Rejected err"
    using assms by (simp add: regenerate_changed Let_def)
  have n: "reloads (trace (snd (regenerateConfiguration env s))) = Suc (reloads (trace s))"
    using assms
    by (simp add: regenerate_changed Let_def generateContext_silent writes_append reloads_append)
  have t: "tick env s = onFailure err (snd (regenerateConfiguration env s))"
    using r by (cases "regenerateConfiguration env s") (simp add: tick_def)
  have e: "exited (tick env s) = Some (- 1)"
    by (simp add: t onFailure_def)
  have "run envs (tick env s) = tick env s"
    using e by (cases envs) simp_all
  with r n e t show ?thesis by (simp add: onFailure_def)
qed

theorem C9_reload_failure_is_fatal_witness:
  "materialChange (example_env ''web'' (Some (HAProxyError ''reload'')))
     (example_state ''web'' None True) = Inr True \<and>
   haproxyRunning (example_state ''web'' None True) \<and>
   haproxy_reload (example_env ''web'' (Some (HAProxyError ''reload''))) =
     Some (HAProxyError ''reload'') \<and>
   fst (regenerateConfiguration (example_env ''web'' (Some (HAProxyError ''reload'')))
     (example_state ''web'' None True)) = Rejected (HAProxyError ''reload'') \<and>
   exited (tick (example_env ''web'' (Some (HAProxyError ''reload'')))
     (example_state ''web'' None True)) = Some (- 1)"
proof -
  have ch: "materialChange (example_env ''web'' (Some (HAProxyError ''reload'')))
     (example_state ''web'' None True) = Inr True"
    by (rule example_changed)
  have ru: "haproxyRunning (example_state ''web'' None True)"
    by (simp add: example_state_fields)
  have re: "haproxy_reload (example_env ''web'' (Some (HAProxyError ''reload''))) =
     Some (HAProxyError ''reload'')"
    by (simp add: example_env_def)
  show ?thesis
    using C9_reload_failure_is_fatal [OF ch ru re] ch ru re by simp
qed

subsection \<open>C10: a cycle without change never settles\<close>

text \<open>
  C10. When the diff reports no change, the promise of \<open>regenerateConfiguration\<close> is never
  settled: the executor calls neither \<open>resolve\<close> nor \<open>reject\<close>. A timer firing then logs no
  completion and calls no failure handler. When the regeneration of the main sequence
  finds no change, the main sequence never goes on: it never verifies the configuration,
  never starts HAProxy (\<open>haproxyRunning\<close> stays false), never sets the timer, so the
  process runs no further cycle; it does not exit either.
\<close>

theorem C10_unchanged_cycle_never_settles:
  "(materialChange env s = Inr False \<longrightarrow>
      fst (regenerateConfiguration env s) = Pending \<and>
      tick env s = snd (regenerateConfiguration env s) \<and>
      RefreshCompleted \<notin> set (drop (length (trace s)) (trace (tick env s))) \<and>
      exited (tick env s) = exited s) \<and>
   (materialChange env (snd (checkTemplate env (initial_state cfg))) = Inr False \<longrightarrow>
      fst (main env cfg) = Pending \<and>
      Verify \<notin> set (trace (snd (main env cfg))) \<and>
      Start \<notin> set (trace (snd (main env cfg))) \<and>
      Schedule \<notin> set (trace (snd (main env cfg))) \<and>
      \<not> haproxyRunning (snd (main env cfg)) \<and>
      exited (snd (main env cfg)) = None \<and>
      process env envs cfg = snd (main env cfg))"
proof (intro conjI impI)
  assume un: "materialChange env s = Inr False"
  show "fst (regenerateConfiguration env s) = Pending"
    by (simp add: regenerate_unchanged [OF un])
  show "tick env s = snd (regenerateConfiguration env s)"
    by (simp add: tick_def regenerate_unchanged [OF un])
  obtain u where u: "trace (snd (generateContext env s)) = trace s @ u" "list_all is_query u"
    using generateContext_queries by blast
  then show "RefreshCompleted \<notin> set (drop (length (trace s)) (trace (tick env s)))"
    using queries_only [of u] by (simp add: tick_unchanged [OF un])
  show "exited (tick env s) = exited s"
    by (simp add: tick_unchanged [OF un] generateContext_frame)
next
  let ?s1 = "snd (checkTemplate env (initial_state cfg))"
  assume un: "materialChange env ?s1 = Inr False"
  have m: "main env cfg = (Pending, snd (generateContext env ?s1))"
    by (rule main_unchanged [OF un])
  obtain u where u: "trace (snd (generateContext env ?s1)) = trace ?s1 @ u" "list_all is_query u"
    using generateContext_queries by blast
  have t: "trace ?s1 = []"
    by (simp add: checkTemplate_def initial_state_def)
  show "fst (main env cfg) = Pending"
    by (simp add: m)
  show "Verify \<notin> set (trace (snd (main env cfg)))"
    using u t queries_only [of u] by (simp add: m)
  show "Start \<notin> set (trace (snd (main env cfg)))"
    using u t queries_only [of u] by (simp add: m)
  show s: "Schedule \<notin> set (trace (snd (main env cfg)))"
    using u t queries_only [of u] by (simp add: m)
  show "\<not> haproxyRunning (snd (main env cfg))"
    by (simp add: m generateContext_frame checkTemplate_def initial_state_def)
  show "exited (snd (main env cfg)) = None"
    by (simp add: m generateContext_frame checkTemplate_def initial_state_def)
  show "process env envs cfg = snd (main env cfg)"
    using s by (simp add: process_def Let_def)
qed

theorem C10_unchanged_cycle_never_settles_witness:
  "materialChange (example_env ''web'' None)
     (snd (checkTemplate (example_env ''web'' None) (initial_state (Some example_web_file)))) =
     Inr False \<and>
   fst (regenerateConfiguration (example_env ''web'' None)
     (snd (checkTemplate (example_env ''web'' None) (initial_state (Some example_web_file))))) =
     Pending \<and>
   main (example_env ''web'' None) (Some example_web_file) =
     (Pending,
      \<lparr>dnsCache_srv = [(''web'', Some [(srv ''s1.mesos'' 8080)\<lparr>ip := Some ''10.0.0.1''\<rparr>,
                                        (srv ''s2.mesos'' 8080)\<lparr>ip := Some ''10.0.0.2''\<rparr>])],
       template = example_template ''web'', haproxyRunning = False,
       configurationFile = Some example_web_file,
       trace = [SrvQuery ''web'', AddrQuery ''s1.mesos'', AddrQuery ''s2.mesos''],
       exited = None\<rparr>) \<and>
   process (example_env ''web'' None) [example_env ''web'' None] (Some example_web_file) =
     snd (main (example_env ''web'' None) (Some example_web_file))"
proof -
  let ?s1 = "snd (checkTemplate (example_env ''web'' None) (initial_state (Some example_web_file)))"
  have un: "materialChange (example_env ''web'' None) ?s1 = Inr False"
    using example_unchanged [of "''web''" None False] by (simp add: example_state_initial)
  have m: "main (example_env ''web'' None) (Some example_web_file) =
      (Pending, snd (generateContext (example_env ''web'' None) ?s1))"
    by (rule main_unchanged [OF un])
  have c: "snd (generateContext (example_env ''web'' None) ?s1) =
      \<lparr>dnsCache_srv = [(''web'', Some [(srv ''s1.mesos'' 8080)\<lparr>ip := Some ''10.0.0.1''\<rparr>,
                                        (srv ''s2.mesos'' 8080)\<lparr>ip := Some ''10.0.0.2''\<rparr>])],
       template = example_template ''web'', haproxyRunning = False,
       configurationFile = Some example_web_file,
       trace = [SrvQuery ''web'', AddrQuery ''s1.mesos'', AddrQuery ''s2.mesos''],
       exited = None\<rparr>"
    using example_web_cycle [of "''web''" None "Some example_web_file" False]
    by (simp add: example_state_initial)
  show ?thesis
    using C10_unchanged_cycle_never_settles [where env = "example_env ''web'' None"
        and s = ?s1 and cfg = "Some example_web_file" and envs = "[example_env ''web'' None]"] un
    by (simp add: m c)
qed

end
